theory Spec2Isabelle
  imports Main "HOL-Library.Word"
begin

unbundle bit_operations_syntax

section \<open>The digest: \<^verbatim>\<open>hashlib.md5(s.encode()).hexdigest()\<close>\<close>

text \<open>
  \<^verbatim>\<open>generate_short_url\<close> calls the library's MD5 (RFC 1321). It is written out here so
  that the short code of a concrete URL can be computed. A \<^typ>\<open>string\<close> stands for the
  bytes of the UTF-8 encoding of the Python string (URLs are ASCII).
\<close>

type_synonym byte = "8 word"
type_synonym u32 = "32 word"

definition encode :: "string \<Rightarrow> byte list" where
  "encode s = map of_char s"

definition le_bytes :: "nat \<Rightarrow> 'a::len word \<Rightarrow> byte list" where
  "le_bytes k w = map (\<lambda>i. ucast (drop_bit (8 * i) w)) [0..<k]"

definition md5_pad :: "byte list \<Rightarrow> byte list" where
  "md5_pad m = m @ [0x80] @ replicate ((55 + 64 - length m mod 64) mod 64) 0
               @ le_bytes 8 (of_nat (8 * length m) :: 64 word)"

definition le_word :: "byte list \<Rightarrow> u32" where
  "le_word bs = foldr (\<lambda>b w. ucast b OR push_bit 8 w) bs 0"

fun chunks :: "nat \<Rightarrow> 'a list \<Rightarrow> 'a list list" where
  "chunks n [] = []"
| "chunks n (x # xs) = take n (x # xs) # chunks n (drop (n - 1) xs)"

definition md5_K :: "u32 list" where
  "md5_K = [
  0xd76aa478, 0xe8c7b756, 0x242070db, 0xc1bdceee, 0xf57c0faf, 0x4787c62a, 0xa8304613, 0xfd469501,
  0x698098d8, 0x8b44f7af, 0xffff5bb1, 0x895cd7be, 0x6b901122, 0xfd987193, 0xa679438e, 0x49b40821,
  0xf61e2562, 0xc040b340, 0x265e5a51, 0xe9b6c7aa, 0xd62f105d, 0x02441453, 0xd8a1e681, 0xe7d3fbc8,
  0x21e1cde6, 0xc33707d6, 0xf4d50d87, 0x455a14ed, 0xa9e3e905, 0xfcefa3f8, 0x676f02d9, 0x8d2a4c8a,
  0xfffa3942, 0x8771f681, 0x6d9d6122, 0xfde5380c, 0xa4beea44, 0x4bdecfa9, 0xf6bb4b60, 0xbebfbc70,
  0x289b7ec6, 0xeaa127fa, 0xd4ef3085, 0x04881d05, 0xd9d4d039, 0xe6db99e5, 0x1fa27cf8, 0xc4ac5665,
  0xf4292244, 0x432aff97, 0xab9423a7, 0xfc93a039, 0x655b59c3, 0x8f0ccc92, 0xffeff47d, 0x85845dd1,
  0x6fa87e4f, 0xfe2ce6e0, 0xa3014314, 0x4e0811a1, 0xf7537e82, 0xbd3af235, 0x2ad7d2bb, 0xeb86d391]"

definition md5_S :: "nat list" where
  "md5_S = [7, 12, 17, 22, 7, 12, 17, 22, 7, 12, 17, 22, 7, 12, 17, 22,
            5, 9, 14, 20, 5, 9, 14, 20, 5, 9, 14, 20, 5, 9, 14, 20,
            4, 11, 16, 23, 4, 11, 16, 23, 4, 11, 16, 23, 4, 11, 16, 23,
            6, 10, 15, 21, 6, 10, 15, 21, 6, 10, 15, 21, 6, 10, 15, 21]"

definition rotl :: "u32 \<Rightarrow> nat \<Rightarrow> u32" where
  "rotl x s = push_bit s x OR drop_bit (32 - s) x"

definition md5_round ::
  "u32 list \<Rightarrow> u32 \<times> u32 \<times> u32 \<times> u32 \<Rightarrow> nat \<Rightarrow> u32 \<times> u32 \<times> u32 \<times> u32" where
  "md5_round M st i = (case st of (a, b, c, d) \<Rightarrow>
     let (f, g) =
           (if i < 16 then ((b AND c) OR (NOT b AND d), i)
            else if i < 32 then ((d AND b) OR (NOT d AND c), (5 * i + 1) mod 16)
            else if i < 48 then (b XOR c XOR d, (3 * i + 5) mod 16)
            else (c XOR (b OR NOT d), (7 * i) mod 16));
         f' = f + a + md5_K ! i + M ! g
     in (d, b + rotl f' (md5_S ! i), b, c))"

definition md5_block :: "u32 \<times> u32 \<times> u32 \<times> u32 \<Rightarrow> byte list \<Rightarrow> u32 \<times> u32 \<times> u32 \<times> u32" where
  "md5_block st blk = (case st of (a0, b0, c0, d0) \<Rightarrow>
     case foldl (md5_round (map le_word (chunks 4 blk))) st [0..<64] of
       (a, b, c, d) \<Rightarrow> (a0 + a, b0 + b, c0 + c, d0 + d))"

definition md5 :: "byte list \<Rightarrow> byte list" where
  "md5 m =
    (case foldl md5_block (0x67452301, 0xefcdab89, 0x98badcfe, 0x10325476) (chunks 64 (md5_pad m)) of
       (a, b, c, d) \<Rightarrow> concat (map (le_bytes 4) [a, b, c, d]))"

definition hex_digit :: "nat \<Rightarrow> char" where
  "hex_digit n = ''0123456789abcdef'' ! n"

definition hexdigest :: "byte list \<Rightarrow> string" where
  "hexdigest bs = concat (map (\<lambda>b. [hex_digit (unat b div 16), hex_digit (unat b mod 16)]) bs)"

section \<open>Time\<close>

text \<open>
  A \<^verbatim>\<open>datetime\<close> is the number of microseconds since 1970-01-01 00:00:00 (what
  \<^verbatim>\<open>datetime.utcnow()\<close> reads, as an integer). The text written by
  \<^verbatim>\<open>strftime("%Y-%m-%d %H:%M:%S")\<close> drops the microseconds: it is represented by the
  number of whole seconds, and \<^verbatim>\<open>strptime\<close> reads it back with microsecond 0.
  Adding a \<^verbatim>\<open>timedelta\<close> raises \<^verbatim>\<open>OverflowError\<close> when the result leaves the range
  0001-01-01 00:00:00 .. 9999-12-31 23:59:59.999999 of \<^verbatim>\<open>datetime\<close>.

  \<^verbatim>\<open>strftime\<close> writes the year of a time before 1000-01-01 00:00:00 with fewer than
  four digits (\<^verbatim>\<open>'997-04-14 00:00:00'\<close>), and \<^verbatim>\<open>strptime\<close>, whose \<^verbatim>\<open>%Y\<close> wants four
  digits, raises \<^verbatim>\<open>ValueError\<close> on such a text.
\<close>

type_synonym datetime = int
type_synonym time_text = int

datatype error =
    HTTPException nat string
  | IntegrityError
  | OperationalError
  | OverflowError
  | ValueError

definition strftime :: "datetime \<Rightarrow> time_text" where
  "strftime t = t div 1000000"

definition year_1000 :: time_text where
  "year_1000 = - 30610224000"

definition strptime :: "time_text \<Rightarrow> error + datetime" where
  "strptime s = (if s < year_1000 then Inl ValueError else Inr (s * 1000000))"

definition datetime_min :: datetime where
  "datetime_min = - 62135596800000000"

definition datetime_max :: datetime where
  "datetime_max = 253402300799999999"

definition add_hours :: "datetime \<Rightarrow> int \<Rightarrow> error + datetime" where
  "add_hours t hours =
    (let r = t + hours * 3600000000
     in if datetime_min \<le> r \<and> r \<le> datetime_max then Inr r else Inl OverflowError)"

section \<open>The database\<close>

text \<open>
  The two tables of \<^verbatim>\<open>init_db\<close>, each a list of rows in rowid order. The column
  \<^verbatim>\<open>id\<close> is \<open>url_id\<close> and \<open>log_id\<close>; the column \<^verbatim>\<open>short_url\<close> of the table
  \<^verbatim>\<open>logs\<close> is \<open>log_short_url\<close>. The foreign key of \<^verbatim>\<open>logs\<close> is not enforced (no
  \<^verbatim>\<open>PRAGMA foreign_keys\<close>). An \<^verbatim>\<open>INTEGER\<close> is an \<^typ>\<open>int\<close>: the counts stay far below
  the 64-bit limit of the column.
\<close>

record url_row =
  url_id :: int
  original_url :: string
  short_url :: string
  creation_time :: time_text
  expiration_time :: time_text
  access_count :: int

record log_row =
  log_id :: int
  log_short_url :: string
  access_time :: time_text
  ip_address :: string

record db =
  urls :: "url_row list"
  logs :: "log_row list"

text \<open>
  \<^verbatim>\<open>CREATE TABLE IF NOT EXISTS\<close>: a database file without the tables (\<open>None\<close>) gets
  two empty tables, an existing database is left as it is.
\<close>

definition init_db :: "db option \<Rightarrow> db" where
  "init_db file = (case file of None \<Rightarrow> \<lparr>urls = [], logs = []\<rparr> | Some d \<Rightarrow> d)"

text \<open>\<^verbatim>\<open>INTEGER PRIMARY KEY\<close> without a value: 1 in an empty table, else the largest rowid plus 1.\<close>

definition next_rowid :: "int list \<Rightarrow> int" where
  "next_rowid ids = (case ids of [] \<Rightarrow> 1 | i # rest \<Rightarrow> fold max rest i + 1)"

text \<open>
  \<^verbatim>\<open>INSERT INTO urls (original_url, short_url, creation_time, expiration_time)\<close>:
  \<^verbatim>\<open>short_url\<close> is \<^verbatim>\<open>UNIQUE\<close>, so the insert raises \<^verbatim>\<open>sqlite3.IntegrityError\<close> when a
  row with that short_url exists; \<^verbatim>\<open>access_count\<close> takes its default 0.
\<close>

definition insert_url :: "db \<Rightarrow> string \<Rightarrow> string \<Rightarrow> time_text \<Rightarrow> time_text \<Rightarrow> error + db" where
  "insert_url d ou su ct et =
    (if su \<in> set (map short_url (urls d)) then Inl IntegrityError
     else Inr (d\<lparr>urls := urls d @
            [\<lparr>url_id = next_rowid (map url_id (urls d)), original_url = ou, short_url = su,
              creation_time = ct, expiration_time = et, access_count = 0\<rparr>]\<rparr>))"

text \<open>
  \<^verbatim>\<open>INSERT INTO logs (short_url, access_time, ip_address)\<close>. The source wraps no handler
  around it; \<open>log_available = False\<close> is the case where the statement raises
  (\<^verbatim>\<open>sqlite3.OperationalError\<close>: the log cannot be written).
\<close>

definition insert_log :: "bool \<Rightarrow> db \<Rightarrow> string \<Rightarrow> time_text \<Rightarrow> string \<Rightarrow> error + db" where
  "insert_log log_available d su at ip =
    (if log_available
     then Inr (d\<lparr>logs := logs d @
            [\<lparr>log_id = next_rowid (map log_id (logs d)), log_short_url = su,
              access_time = at, ip_address = ip\<rparr>]\<rparr>)
     else Inl OperationalError)"

text \<open>\<^verbatim>\<open>UPDATE urls SET access_count = access_count + 1 WHERE short_url = ?\<close>\<close>

definition update_access_count :: "db \<Rightarrow> string \<Rightarrow> db" where
  "update_access_count d su =
    d\<lparr>urls := map (\<lambda>r. if short_url r = su then r\<lparr>access_count := access_count r + 1\<rparr> else r)
                  (urls d)\<rparr>"

text \<open>\<^verbatim>\<open>SELECT ... FROM urls WHERE short_url = ?\<close> followed by \<^verbatim>\<open>fetchone()\<close>\<close>

definition select_url :: "db \<Rightarrow> string \<Rightarrow> url_row option" where
  "select_url d su = find (\<lambda>r. short_url r = su) (urls d)"

text \<open>\<^verbatim>\<open>SELECT access_time, ip_address FROM logs WHERE short_url = ?\<close> followed by \<^verbatim>\<open>fetchall()\<close>\<close>

definition select_logs :: "db \<Rightarrow> string \<Rightarrow> (time_text \<times> string) list" where
  "select_logs d su =
    map (\<lambda>l. (access_time l, ip_address l)) (filter (\<lambda>l. log_short_url l = su) (logs d))"

section \<open>The endpoints\<close>

definition generate_short_url :: "string \<Rightarrow> string" where
  "generate_short_url ou = take 6 (hexdigest (md5 (encode ou)))"

text \<open>The second argument is the reading of \<^verbatim>\<open>datetime.utcnow()\<close>.\<close>

definition is_expired :: "time_text \<Rightarrow> datetime \<Rightarrow> error + bool" where
  "is_expired et now = (case strptime et of Inl e \<Rightarrow> Inl e | Inr t \<Rightarrow> Inr (now > t))"

record ShortenRequest =
  request_original_url :: string
  expiry_hours :: int

text \<open>
  \<^verbatim>\<open>shorten_url\<close> reads the clock twice: \<open>now1\<close> for the expiration time, \<open>now2\<close> for
  the creation time. The result is the value of the key \<^verbatim>\<open>"short_url"\<close> of the
  returned dictionary, with the database after the commit. Only \<^verbatim>\<open>IntegrityError\<close> is
  caught (\<^verbatim>\<open>pass\<close>).
\<close>

definition shorten_url ::
  "db \<Rightarrow> ShortenRequest \<Rightarrow> datetime \<Rightarrow> datetime \<Rightarrow> (error + string) \<times> db" where
  "shorten_url d request now1 now2 =
    (let ou = request_original_url request;
         su = generate_short_url ou
     in case add_hours now1 (expiry_hours request) of
          Inl e \<Rightarrow> (Inl e, d)
        | Inr et \<Rightarrow>
           (case insert_url d ou su (strftime now2) (strftime et) of
              Inl e \<Rightarrow> if e = IntegrityError then (Inr (''https://short.ly/'' @ su), d)
                       else (Inl e, d)
            | Inr d' \<Rightarrow> (Inr (''https://short.ly/'' @ su), d')))"

text \<open>
  \<^verbatim>\<open>redirect_url\<close>: \<open>host\<close> is \<^verbatim>\<open>request.client.host\<close> of a request that has a
  client address, \<open>now1\<close> the clock reading of
  \<^verbatim>\<open>is_expired\<close>, \<open>now2\<close> the one of the log row. An exception leaves the function
  before \<^verbatim>\<open>conn.commit()\<close>, so the database is the one before the call.
\<close>

definition redirect_url ::
  "bool \<Rightarrow> db \<Rightarrow> string \<Rightarrow> string \<Rightarrow> datetime \<Rightarrow> datetime \<Rightarrow> (error + string) \<times> db" where
  "redirect_url log_available d su host now1 now2 =
    (case select_url d su of
       None \<Rightarrow> (Inl (HTTPException 404 ''Short URL not found''), d)
     | Some row \<Rightarrow>
        (case is_expired (expiration_time row) now1 of
           Inl e \<Rightarrow> (Inl e, d)
         | Inr expired \<Rightarrow>
            if expired
            then (Inl (HTTPException 410 ''This URL has expired''), d)
            else (case insert_log log_available d su (strftime now2) host of
                    Inl e \<Rightarrow> (Inl e, d)
                  | Inr d' \<Rightarrow> (Inr (original_url row), update_access_count d' su))))"

record analytics =
  an_original_url :: string
  an_short_url :: string
  an_access_count :: int
  an_expiration_time :: time_text
  an_logs :: "(time_text \<times> string) list"

definition get_analytics :: "db \<Rightarrow> string \<Rightarrow> error + analytics" where
  "get_analytics d su =
    (case select_url d su of
       None \<Rightarrow> Inl (HTTPException 404 ''Short URL not found'')
     | Some row \<Rightarrow>
        Inr \<lparr>an_original_url = original_url row,
             an_short_url = ''https://short.ly/'' @ su,
             an_access_count = access_count row,
             an_expiration_time = expiration_time row,
             an_logs = select_logs d su\<rparr>)"

section \<open>Sequences of requests\<close>

datatype request =
    Shorten ShortenRequest datetime datetime
  | Redirect bool string string datetime datetime
  | Analytics string

datatype response = Url "error + string" | Report "error + analytics"

fun app :: "db \<Rightarrow> request \<Rightarrow> response \<times> db" where
  "app d (Shorten request now1 now2) =
     (case shorten_url d request now1 now2 of (r, d') \<Rightarrow> (Url r, d'))"
| "app d (Redirect log_available su host now1 now2) =
     (case redirect_url log_available d su host now1 now2 of (r, d') \<Rightarrow> (Url r, d'))"
| "app d (Analytics su) = (Report (get_analytics d su), d)"

fun run :: "db \<Rightarrow> request list \<Rightarrow> db" where
  "run d [] = d"
| "run d (q # qs) = run (snd (app d q)) qs"

text \<open>A redirect that answers with the original URL.\<close>

fun resolved :: "db \<Rightarrow> request \<Rightarrow> bool" where
  "resolved d (Redirect log_available su host now1 now2) =
     (case fst (redirect_url log_available d su host now1 now2) of Inl e \<Rightarrow> False | Inr u \<Rightarrow> True)"
| "resolved d q = False"

text \<open>The number of such redirects in a sequence of requests run from \<open>d\<close>.\<close>

fun resolutions :: "db \<Rightarrow> request list \<Rightarrow> nat" where
  "resolutions d [] = 0"
| "resolutions d (q # qs) = (if resolved d q then 1 else 0) + resolutions (snd (app d q)) qs"

text \<open>The number of redirects of the short URL \<open>su\<close> among them.\<close>

fun resolved_of :: "string \<Rightarrow> db \<Rightarrow> request \<Rightarrow> bool" where
  "resolved_of su d (Redirect log_available su' host now1 now2) =
     (su' = su \<and> resolved d (Redirect log_available su' host now1 now2))"
| "resolved_of su d q = False"

fun resolutions_of :: "string \<Rightarrow> db \<Rightarrow> request list \<Rightarrow> nat" where
  "resolutions_of su d [] = 0"
| "resolutions_of su d (q # qs) =
     (if resolved_of su d q then 1 else 0) + resolutions_of su (snd (app d q)) qs"

section \<open>Redirects that overlap\<close>

text \<open>
  The statements that a \<^verbatim>\<open>redirect_url\<close> on its way to the original URL sends to the
  database, in the order of the source: the \<^verbatim>\<open>SELECT\<close>, the \<^verbatim>\<open>INSERT INTO logs\<close>, and
  the \<^verbatim>\<open>UPDATE\<close> (with the commit). The handler has no \<^verbatim>\<open>await\<close>; when several
  redirects are under way (several worker processes on one database file), the database
  executes their statements one at a time, in some interleaving that keeps the order of
  each redirect's own statements.
\<close>

datatype statement =
    Select_url string
  | Insert_log string time_text string
  | Update_access_count string

fun execute :: "db \<Rightarrow> statement \<Rightarrow> db" where
  "execute d (Select_url su) = d"
| "execute d (Insert_log su at ip) =
     (case insert_log True d su at ip of Inl e \<Rightarrow> d | Inr d' \<Rightarrow> d')"
| "execute d (Update_access_count su) = update_access_count d su"

text \<open>A redirect of \<open>su\<close> from \<open>host\<close> whose log row is written at \<open>now2\<close>.\<close>

fun resolution :: "string \<times> string \<times> datetime \<Rightarrow> statement list" where
  "resolution (su, host, now2) =
     [Select_url su, Insert_log su (strftime now2) host, Update_access_count su]"

fun interleavings :: "'a list list \<Rightarrow> 'a list set" where
  "interleavings [] = {[]}"
| "interleavings (xs # xss) = (\<Union>ys \<in> interleavings xss. shuffles xs ys)"

section \<open>Example data\<close>

text \<open>
  One row, created 2024-01-01 00:00:00 with 24 hours to live, for the short URL that
  \<open>generate_short_url\<close> gives its original URL, and no log rows.
\<close>

definition example_row :: url_row where
  "example_row =
    \<lparr>url_id = 1, original_url = ''https://example.com/347'', short_url = ''ffcead'',
     creation_time = 1704067200, expiration_time = 1704153600, access_count = 0\<rparr>"

definition example_db :: db where
  "example_db = \<lparr>urls = [example_row], logs = []\<rparr>"

text \<open>The example after a second original URL, with another short URL, was shortened an hour later.\<close>

definition example_row2 :: url_row where
  "example_row2 =
    \<lparr>url_id = 2, original_url = ''https://example.com/1548'', short_url = ''7f17b0'',
     creation_time = 1704070800, expiration_time = 1704157200, access_count = 0\<rparr>"

definition example_db2 :: db where
  "example_db2 = \<lparr>urls = [example_row, example_row2], logs = []\<rparr>"

text \<open>
  The row that \<^verbatim>\<open>shorten_url\<close> stores on 2024-01-01 00:00:00 for
  \<^verbatim>\<open>https://example.com/347\<close> with \<^verbatim>\<open>expiry_hours = -9000000\<close>: its expiration time is
  0997-04-14 00:00:00.
\<close>

definition example_old :: db where
  "example_old =
    \<lparr>urls = [\<lparr>url_id = 1, original_url = ''https://example.com/347'', short_url = ''ffcead'',
              creation_time = 1704067200, expiration_time = - 30695932800, access_count = 0\<rparr>],
     logs = []\<rparr>"

text \<open>The example with three log rows, two of them of the stored short URL.\<close>

definition example_logged :: db where
  "example_logged =
    example_db\<lparr>logs :=
      [\<lparr>log_id = 1, log_short_url = ''ffcead'', access_time = 1704070000, ip_address = ''10.0.0.1''\<rparr>,
       \<lparr>log_id = 2, log_short_url = ''7f17b0'', access_time = 1704070001, ip_address = ''10.0.0.2''\<rparr>,
       \<lparr>log_id = 3, log_short_url = ''ffcead'', access_time = 1704070002, ip_address = ''10.0.0.3''\<rparr>]\<rparr>"

section \<open>The short URLs of the examples\<close>

lemma generate_short_url_347: "generate_short_url ''https://example.com/347'' = ''ffcead''"
  by code_simp

lemma generate_short_url_1155: "generate_short_url ''https://example.com/1155'' = ''ffcead''"
  by code_simp

lemma generate_short_url_1548: "generate_short_url ''https://example.com/1548'' = ''7f17b0''"
  by code_simp

lemmas eval_defs =
  shorten_url_def redirect_url_def get_analytics_def insert_url_def insert_log_def
  update_access_count_def select_url_def select_logs_def init_db_def next_rowid_def
  add_hours_def datetime_min_def datetime_max_def strftime_def strptime_def year_1000_def
  is_expired_def example_db_def example_row_def Let_def

section \<open>Failed resolutions\<close>

lemma redirect_url_error_db:
  "fst (redirect_url la d su host now1 now2) = Inl e \<Longrightarrow>
   snd (redirect_url la d su host now1 now2) = d"
  by (auto simp: redirect_url_def split: option.splits if_splits sum.splits)

text \<open>
  C10. When \<^verbatim>\<open>redirect_url\<close> fails with 404 (no row for the short URL) or with 410 (the
  row is expired), the database after the call is the database before it: no log row is
  inserted, no access_count is incremented, no row is modified.
\<close>

theorem redirect_url_failure_unchanged:
  "(select_url d su = None \<longrightarrow>
      redirect_url la d su host now1 now2 = (Inl (HTTPException 404 ''Short URL not found''), d)) \<and>
   (\<forall>row. select_url d su = Some row \<and> is_expired (expiration_time row) now1 = Inr True \<longrightarrow>
      redirect_url la d su host now1 now2 = (Inl (HTTPException 410 ''This URL has expired''), d)) \<and>
   (\<forall>s m. fst (redirect_url la d su host now1 now2) = Inl (HTTPException s m) \<longrightarrow>
      snd (redirect_url la d su host now1 now2) = d \<and>
      urls (snd (redirect_url la d su host now1 now2)) = urls d \<and>
      logs (snd (redirect_url la d su host now1 now2)) = logs d)"
  by (auto simp: redirect_url_def split: option.splits if_splits sum.splits)

theorem redirect_url_failure_unchanged_witness:
  "select_url example_db ''000000'' = None \<and>
   redirect_url True example_db ''000000'' ''127.0.0.1'' 1704070000000000 1704070000000001
     = (Inl (HTTPException 404 ''Short URL not found''), example_db) \<and>
   select_url example_db ''ffcead'' = Some example_row \<and>
   is_expired (expiration_time example_row) 1704153600000001 = Inr True \<and>
   redirect_url True example_db ''ffcead'' ''127.0.0.1'' 1704153600000001 1704153600000002
     = (Inl (HTTPException 410 ''This URL has expired''), example_db)"
  using redirect_url_failure_unchanged
          [of example_db "''000000''" True "''127.0.0.1''" 1704070000000000 1704070000000001]
        redirect_url_failure_unchanged
          [of example_db "''ffcead''" True "''127.0.0.1''" 1704153600000001 1704153600000002]
  by (simp add: example_db_def example_row_def select_url_def is_expired_def strptime_def
        year_1000_def)

section \<open>Successful resolutions\<close>

lemma find_map_short_url:
  "(\<And>r. short_url (f r) = short_url r) \<Longrightarrow>
   find (\<lambda>r. short_url r = su) (map f rows) = map_option f (find (\<lambda>r. short_url r = su) rows)"
  by (induction rows) auto

lemma select_url_update_access_count:
  "select_url (update_access_count d su) su' =
   map_option (\<lambda>r. if short_url r = su then r\<lparr>access_count := access_count r + 1\<rparr> else r)
     (select_url d su')"
  unfolding select_url_def update_access_count_def
  by (simp add: find_map_short_url)

lemma select_url_logs_update [simp]:
  "select_url (d\<lparr>logs := ls\<rparr>) su = select_url d su"
  by (simp add: select_url_def)

lemma select_url_Some_short_url:
  "select_url d su = Some row \<Longrightarrow> short_url row = su \<and> row \<in> set (urls d)"
  unfolding select_url_def by (auto simp: find_Some_iff)

lemma select_url_None_iff:
  "select_url d su = None \<longleftrightarrow> su \<notin> short_url ` set (urls d)"
  unfolding select_url_def by (auto simp: find_None_iff)

lemma redirect_url_success:
  assumes "select_url d su = Some row" and "is_expired (expiration_time row) now1 = Inr False"
  shows "redirect_url True d su host now1 now2 =
           (Inr (original_url row),
            update_access_count
              (d\<lparr>logs := logs d @
                  [\<lparr>log_id = next_rowid (map log_id (logs d)), log_short_url = su,
                    access_time = strftime now2, ip_address = host\<rparr>]\<rparr>) su)"
  using assms by (simp add: redirect_url_def insert_log_def)

text \<open>
  C2 (as the code has it). \<^verbatim>\<open>redirect_url\<close> answers 404 when no row has the short
  URL. For a row whose expiration text \<^verbatim>\<open>strptime\<close> reads back, it answers 410 when the
  clock is past the expiration time, and then returns no URL; otherwise, the log row
  being written, it returns the row's original URL and the row's access_count is larger
  by exactly 1, the rows of other short URLs being as before. 404 and 410 are different
  answers.
\<close>

theorem redirect_url_contract:
  "(select_url d su = None \<longrightarrow>
      fst (redirect_url la d su host now1 now2) = Inl (HTTPException 404 ''Short URL not found'')) \<and>
   (\<forall>row t. select_url d su = Some row \<and> strptime (expiration_time row) = Inr t \<and> t < now1 \<longrightarrow>
      fst (redirect_url la d su host now1 now2) = Inl (HTTPException 410 ''This URL has expired'')) \<and>
   (\<forall>row t. select_url d su = Some row \<and> strptime (expiration_time row) = Inr t \<and> now1 \<le> t \<longrightarrow>
      fst (redirect_url True d su host now1 now2) = Inr (original_url row) \<and>
      select_url (snd (redirect_url True d su host now1 now2)) su
        = Some (row\<lparr>access_count := access_count row + 1\<rparr>) \<and>
      (\<forall>su'. su' \<noteq> su \<longrightarrow>
         select_url (snd (redirect_url True d su host now1 now2)) su' = select_url d su')) \<and>
   HTTPException 404 ''Short URL not found'' \<noteq> HTTPException 410 ''This URL has expired''"
proof (intro conjI allI impI)
  assume "select_url d su = None"
  then show "fst (redirect_url la d su host now1 now2) = Inl (HTTPException 404 ''Short URL not found'')"
    by (simp add: redirect_url_def)
next
  fix row t
  assume "select_url d su = Some row \<and> strptime (expiration_time row) = Inr t \<and> t < now1"
  then show "fst (redirect_url la d su host now1 now2) = Inl (HTTPException 410 ''This URL has expired'')"
    by (simp add: redirect_url_def is_expired_def)
next
  fix row t
  assume a: "select_url d su = Some row \<and> strptime (expiration_time row) = Inr t \<and> now1 \<le> t"
  then have sel: "select_url d su = Some row"
    and ne: "is_expired (expiration_time row) now1 = Inr False"
    by (simp_all add: is_expired_def)
  note ok = redirect_url_success [OF sel ne, of host now2]
  show "fst (redirect_url True d su host now1 now2) = Inr (original_url row)"
    by (simp add: ok)
  from sel have su: "short_url row = su"
    by (auto dest: select_url_Some_short_url)
  show "select_url (snd (redirect_url True d su host now1 now2)) su
          = Some (row\<lparr>access_count := access_count row + 1\<rparr>)"
    using sel su by (simp add: ok select_url_update_access_count)
  fix su'
  assume "su' \<noteq> su"
  then show "select_url (snd (redirect_url True d su host now1 now2)) su' = select_url d su'"
    by (cases "select_url d su'")
       (auto simp: ok select_url_update_access_count dest: select_url_Some_short_url)
next
  show "HTTPException 404 ''Short URL not found'' \<noteq> HTTPException 410 ''This URL has expired''"
    by simp
qed

theorem redirect_url_contract_witness:
  "select_url example_db ''000000'' = None \<and>
   fst (redirect_url True example_db ''000000'' ''127.0.0.1'' 1704070000000000 1704070000000001)
     = Inl (HTTPException 404 ''Short URL not found'') \<and>
   select_url example_db ''ffcead'' = Some example_row \<and>
   strptime (expiration_time example_row) = Inr 1704153600000000 \<and>
   (1704153600000000 :: int) < 1704153600000001 \<and>
   fst (redirect_url True example_db ''ffcead'' ''127.0.0.1'' 1704153600000001 1704153600000002)
     = Inl (HTTPException 410 ''This URL has expired'') \<and>
   (1704153600000000 :: int) \<le> 1704153600000000 \<and>
   fst (redirect_url True example_db ''ffcead'' ''127.0.0.1'' 1704153600000000 1704153600000002)
     = Inr ''https://example.com/347'' \<and>
   select_url
     (snd (redirect_url True example_db ''ffcead'' ''127.0.0.1'' 1704153600000000 1704153600000002))
     ''ffcead'' = Some (example_row\<lparr>access_count := 1\<rparr>)"
proof -
  have none: "select_url example_db ''000000'' = None"
    and some: "select_url example_db ''ffcead'' = Some example_row"
    by (simp_all add: example_db_def example_row_def select_url_def)
  have t: "strptime (expiration_time example_row) = Inr 1704153600000000"
    by (simp add: example_row_def strptime_def year_1000_def)
  from redirect_url_contract
         [of example_db "''000000''" True "''127.0.0.1''" 1704070000000000 1704070000000001] none
  have a: "fst (redirect_url True example_db ''000000'' ''127.0.0.1''
                  1704070000000000 1704070000000001)
             = Inl (HTTPException 404 ''Short URL not found'')"
    by blast
  have late: "(1704153600000000 :: int) < 1704153600000001"
    by simp
  from redirect_url_contract
         [of example_db "''ffcead''" True "''127.0.0.1''" 1704153600000001 1704153600000002]
       some t late
  have b: "fst (redirect_url True example_db ''ffcead'' ''127.0.0.1''
                  1704153600000001 1704153600000002)
             = Inl (HTTPException 410 ''This URL has expired'')"
    by blast
  have intime: "(1704153600000000 :: int) \<le> 1704153600000000"
    by simp
  from redirect_url_contract
         [of example_db "''ffcead''" True "''127.0.0.1''" 1704153600000000 1704153600000002]
       some t intime
  have c: "fst (redirect_url True example_db ''ffcead'' ''127.0.0.1''
                  1704153600000000 1704153600000002) = Inr (original_url example_row)"
    and e: "select_url
              (snd (redirect_url True example_db ''ffcead'' ''127.0.0.1''
                      1704153600000000 1704153600000002)) ''ffcead''
              = Some (example_row\<lparr>access_count := access_count example_row + 1\<rparr>)"
    by blast+
  from none a some t b c e show ?thesis
    by (simp add: example_row_def)
qed

text \<open>
  The claim C2 as stated fails twice. The row that a shorten request with
  \<^verbatim>\<open>expiry_hours = -9000000\<close> stores has an expiration time long past, and
  \<^verbatim>\<open>redirect_url\<close> answers its short URL with \<^verbatim>\<open>ValueError\<close>, not with 410. And for the
  stored, unexpired short URL of the example, with the log unavailable, it neither
  returns the original URL nor increments the access_count.
\<close>

theorem redirect_url_contract_counterexample:
  "shorten_url (init_db None)
     \<lparr>request_original_url = ''https://example.com/347'', expiry_hours = - 9000000\<rparr>
     1704067200000000 1704067200000001 = (Inr ''https://short.ly/ffcead'', example_old) \<and>
   map expiration_time (urls example_old) = [- 30695932800] \<and>
   (- 30695932800 :: int) < strftime 1704070000000000 \<and>
   redirect_url True example_old ''ffcead'' ''127.0.0.1'' 1704070000000000 1704070000000001
     = (Inl ValueError, example_old) \<and>
   redirect_url False example_db ''ffcead'' ''127.0.0.1'' 1704070000000000 1704070000000001
     = (Inl OperationalError, example_db) \<and>
   map access_count (urls example_db) = [0]"
  by (simp add: eval_defs example_old_def generate_short_url_347)

section \<open>A log row that cannot be written\<close>

text \<open>
  C8 (as the code has it). When the insert into \<^verbatim>\<open>logs\<close> raises, \<^verbatim>\<open>redirect_url\<close>
  raises with it: for a stored, unexpired short URL the answer is the error, no URL is
  returned, and the database is the one before the call (the \<^verbatim>\<open>UPDATE\<close> and the commit
  are not reached).
\<close>

theorem redirect_url_log_failure:
  "select_url d su = Some row \<Longrightarrow> is_expired (expiration_time row) now1 = Inr False \<Longrightarrow>
   redirect_url False d su host now1 now2 = (Inl OperationalError, d)"
  by (simp add: redirect_url_def insert_log_def)

theorem redirect_url_log_failure_witness:
  "select_url example_db ''ffcead'' = Some example_row \<and>
   is_expired (expiration_time example_row) 1704070000000000 = Inr False \<and>
   redirect_url False example_db ''ffcead'' ''127.0.0.1'' 1704070000000000 1704070000000001
     = (Inl OperationalError, example_db)"
proof -
  have s: "select_url example_db ''ffcead'' = Some example_row"
    by (simp add: example_db_def example_row_def select_url_def)
  have e: "is_expired (expiration_time example_row) 1704070000000000 = Inr False"
    by (simp add: example_row_def is_expired_def strptime_def year_1000_def)
  from s e redirect_url_log_failure [OF s e] show ?thesis
    by simp
qed

text \<open>
  The claim C8 as stated fails: with the log unavailable, the resolution of the stored,
  unexpired short URL of the example returns no URL and the access_count stays 0.
\<close>

theorem redirect_url_log_failure_counterexample:
  "fst (redirect_url False example_db ''ffcead'' ''127.0.0.1'' 1704070000000000 1704070000000001)
     \<noteq> Inr ''https://example.com/347'' \<and>
   map access_count
     (urls (snd (redirect_url False example_db ''ffcead'' ''127.0.0.1''
                   1704070000000000 1704070000000001))) = [0] \<and>
   map access_count
     (urls (snd (redirect_url True example_db ''ffcead'' ''127.0.0.1''
                   1704070000000000 1704070000000001))) = [1]"
  by (simp add: redirect_url_def insert_log_def example_db_def example_row_def select_url_def
        is_expired_def strptime_def year_1000_def update_access_count_def)

section \<open>Analytics\<close>

text \<open>
  C7. \<^verbatim>\<open>get_analytics\<close> fails, with 404, exactly when no row has the short URL; the
  clock is not read, so an expired row is reported like any other. For a stored short
  URL it returns the row's original URL, access_count and expiration time, and the
  (access_time, ip_address) of the log rows of that short URL in the order of the table:
  a log row inserted later comes after all earlier ones.
\<close>

theorem get_analytics_contract:
  "(get_analytics d su = Inl (HTTPException 404 ''Short URL not found'')
      \<longleftrightarrow> su \<notin> short_url ` set (urls d)) \<and>
   (\<forall>e. get_analytics d su = Inl e \<longrightarrow> su \<notin> short_url ` set (urls d)) \<and>
   (\<forall>row. select_url d su = Some row \<longrightarrow>
      get_analytics d su =
        Inr \<lparr>an_original_url = original_url row, an_short_url = ''https://short.ly/'' @ su,
             an_access_count = access_count row, an_expiration_time = expiration_time row,
             an_logs = map (\<lambda>l. (access_time l, ip_address l))
                         (filter (\<lambda>l. log_short_url l = su) (logs d))\<rparr>) \<and>
   select_logs (d\<lparr>logs := logs d @ [l]\<rparr>) su =
     select_logs d su @ (if log_short_url l = su then [(access_time l, ip_address l)] else [])"
  by (auto simp: get_analytics_def select_logs_def select_url_None_iff [symmetric]
           split: option.splits)

theorem get_analytics_contract_witness:
  "''000000'' \<notin> short_url ` set (urls example_logged) \<and>
   get_analytics example_logged ''000000'' = Inl (HTTPException 404 ''Short URL not found'') \<and>
   select_url example_logged ''ffcead'' = Some example_row \<and>
   is_expired (expiration_time example_row) 1800000000000000 = Inr True \<and>
   get_analytics example_logged ''ffcead'' =
     Inr \<lparr>an_original_url = ''https://example.com/347'', an_short_url = ''https://short.ly/ffcead'',
          an_access_count = 0, an_expiration_time = 1704153600,
          an_logs = [(1704070000, ''10.0.0.1''), (1704070002, ''10.0.0.3'')]\<rparr>"
  using get_analytics_contract [of example_logged "''000000''"]
        get_analytics_contract [of example_logged "''ffcead''"]
  by (simp add: example_logged_def example_db_def example_row_def select_url_def
        is_expired_def strptime_def year_1000_def)

section \<open>What a request does to the tables\<close>

lemma shorten_url_db:
  "snd (shorten_url d rq now1 now2) = d \<or>
   (\<exists>row. snd (shorten_url d rq now1 now2) = d\<lparr>urls := urls d @ [row]\<rparr> \<and>
          access_count row = 0 \<and> short_url row \<notin> short_url ` set (urls d))"
  by (auto simp: shorten_url_def insert_url_def Let_def split: sum.splits)

lemma redirect_url_db:
  "(\<exists>e. redirect_url la d su host now1 now2 = (Inl e, d)) \<or>
   (\<exists>row. select_url d su = Some row \<and> is_expired (expiration_time row) now1 = Inr False \<and>
      redirect_url la d su host now1 now2 =
        (Inr (original_url row),
         update_access_count
           (d\<lparr>logs := logs d @
               [\<lparr>log_id = next_rowid (map log_id (logs d)), log_short_url = su,
                 access_time = strftime now2, ip_address = host\<rparr>]\<rparr>) su))"
  by (auto simp: redirect_url_def insert_log_def split: option.splits sum.splits)

lemma app_db:
  "(\<not> resolved d q \<and>
      (snd (app d q) = d \<or>
       (\<exists>row. snd (app d q) = d\<lparr>urls := urls d @ [row]\<rparr> \<and> access_count row = 0 \<and>
              short_url row \<notin> short_url ` set (urls d)))) \<or>
   (resolved d q \<and>
      (\<exists>la su host now1 now2 row.
          q = Redirect la su host now1 now2 \<and> select_url d su = Some row \<and>
          is_expired (expiration_time row) now1 = Inr False \<and>
          snd (app d q) =
            update_access_count
              (d\<lparr>logs := logs d @
                  [\<lparr>log_id = next_rowid (map log_id (logs d)), log_short_url = su,
                    access_time = strftime now2, ip_address = host\<rparr>]\<rparr>) su))"
proof (cases q)
  case (Shorten rq now1 now2)
  with shorten_url_db [of d rq now1 now2] show ?thesis
    by (auto split: prod.splits)
next
  case (Redirect la su host now1 now2)
  with redirect_url_db [of la d su host now1 now2] show ?thesis
    by (auto split: prod.splits)
next
  case (Analytics su)
  then show ?thesis by simp
qed

lemma app_urls:
  "length (urls d) \<le> length (urls (snd (app d q))) \<and>
   (\<forall>i < length (urls d).
      urls (snd (app d q)) ! i =
        (urls d ! i)\<lparr>access_count := access_count (urls (snd (app d q)) ! i)\<rparr> \<and>
      access_count (urls d ! i) \<le> access_count (urls (snd (app d q)) ! i))"
  using app_db [of d q]
  by (auto simp: nth_append update_access_count_def)

lemma run_urls:
  "length (urls d) \<le> length (urls (run d qs)) \<and>
   (\<forall>i < length (urls d).
      urls (run d qs) ! i = (urls d ! i)\<lparr>access_count := access_count (urls (run d qs) ! i)\<rparr> \<and>
      access_count (urls d ! i) \<le> access_count (urls (run d qs) ! i))"
proof (induction qs arbitrary: d)
  case Nil
  show ?case by simp
next
  case (Cons q qs)
  let ?d1 = "snd (app d q)"
  note step = app_urls [of d q] and rest = Cons.IH [of ?d1]
  show ?case
  proof (intro conjI allI impI)
    show "length (urls d) \<le> length (urls (run d (q # qs)))"
      using step rest by simp
  next
    fix i
    assume i: "i < length (urls d)"
    then have i1: "i < length (urls ?d1)"
      using step by simp
    have a: "urls ?d1 ! i = (urls d ! i)\<lparr>access_count := access_count (urls ?d1 ! i)\<rparr>"
      and b: "access_count (urls d ! i) \<le> access_count (urls ?d1 ! i)"
      using step i by simp_all
    have c: "urls (run ?d1 qs) ! i
               = (urls ?d1 ! i)\<lparr>access_count := access_count (urls (run ?d1 qs) ! i)\<rparr>"
      and e: "access_count (urls ?d1 ! i) \<le> access_count (urls (run ?d1 qs) ! i)"
      using rest i1 by simp_all
    show "urls (run d (q # qs)) ! i
            = (urls d ! i)\<lparr>access_count := access_count (urls (run d (q # qs)) ! i)\<rparr>"
      by (simp, subst c, subst a, simp)
    show "access_count (urls d ! i) \<le> access_count (urls (run d (q # qs)) ! i)"
      using b e by simp
  qed
qed

lemma app_nonneg:
  "\<forall>row \<in> set (urls d). 0 \<le> access_count row \<Longrightarrow>
   \<forall>row \<in> set (urls (snd (app d q))). 0 \<le> access_count row"
  using app_db [of d q]
  by (auto simp: update_access_count_def)

lemma run_nonneg:
  "\<forall>row \<in> set (urls d). 0 \<le> access_count row \<Longrightarrow>
   \<forall>row \<in> set (urls (run d qs)). 0 \<le> access_count row"
proof (induction qs arbitrary: d)
  case Nil
  then show ?case by simp
next
  case (Cons q qs)
  from Cons.IH [OF app_nonneg [OF Cons.prems, of q]] show ?case
    by simp
qed

lemma app_new_rows:
  "length (urls d) \<le> i \<Longrightarrow> i < length (urls (snd (app d q))) \<Longrightarrow>
   access_count (urls (snd (app d q)) ! i) = 0"
  using app_db [of d q]
  by (auto simp: nth_append update_access_count_def)

lemma app_not_resolved_urls:
  "\<not> resolved d q \<Longrightarrow> take (length (urls d)) (urls (snd (app d q))) = urls d"
  using app_db [of d q] by auto

section \<open>The access counter\<close>

text \<open>
  C5. In every database reached from the empty tables by any sequence of shorten,
  redirect and analytics requests, every access_count is non-negative. Over any sequence
  of requests, run from any database, a row keeps its place and all its columns but
  access_count, which does not decrease. A row inserted by a request has access_count 0.
  A request that is not a redirect answering with the original URL (a shorten, a failed
  redirect, an analytics request) leaves every existing row as it is.
\<close>

theorem access_count_invariant:
  "(\<forall>row \<in> set (urls (run (init_db None) qs)). 0 \<le> access_count row) \<and>
   length (urls d) \<le> length (urls (run d qs)) \<and>
   (\<forall>i < length (urls d).
      urls (run d qs) ! i = (urls d ! i)\<lparr>access_count := access_count (urls (run d qs) ! i)\<rparr> \<and>
      access_count (urls d ! i) \<le> access_count (urls (run d qs) ! i)) \<and>
   (\<forall>i. length (urls d) \<le> i \<and> i < length (urls (snd (app d q))) \<longrightarrow>
      access_count (urls (snd (app d q)) ! i) = 0) \<and>
   (\<not> resolved d q \<longrightarrow> take (length (urls d)) (urls (snd (app d q))) = urls d)"
proof (intro conjI)
  show "\<forall>row \<in> set (urls (run (init_db None) qs)). 0 \<le> access_count row"
    by (rule run_nonneg) (simp add: init_db_def)
  show "length (urls d) \<le> length (urls (run d qs))"
    by (rule conjunct1 [OF run_urls])
  show "\<forall>i < length (urls d).
      urls (run d qs) ! i = (urls d ! i)\<lparr>access_count := access_count (urls (run d qs) ! i)\<rparr> \<and>
      access_count (urls d ! i) \<le> access_count (urls (run d qs) ! i)"
    by (rule conjunct2 [OF run_urls])
  show "\<forall>i. length (urls d) \<le> i \<and> i < length (urls (snd (app d q))) \<longrightarrow>
      access_count (urls (snd (app d q)) ! i) = 0"
    by (intro allI impI, elim conjE, rule app_new_rows)
  show "\<not> resolved d q \<longrightarrow> take (length (urls d)) (urls (snd (app d q))) = urls d"
    by (intro impI, rule app_not_resolved_urls)
qed

theorem access_count_invariant_witness:
  "example_row\<lparr>access_count := 1\<rparr>
     \<in> set (urls (run (init_db None)
          [Shorten \<lparr>request_original_url = ''https://example.com/347'', expiry_hours = 24\<rparr>
             1704067200000000 1704067200000001,
           Redirect True ''ffcead'' ''127.0.0.1'' 1704070860000000 1704070860000001])) \<and>
   0 \<le> access_count (example_row\<lparr>access_count := 1\<rparr>) \<and>
   0 < length (urls example_db) \<and>
   access_count (urls example_db ! 0) = 0 \<and>
   access_count
     (urls (run example_db
        [Redirect True ''ffcead'' ''127.0.0.1'' 1704070860000000 1704070860000001,
         Analytics ''ffcead'',
         Redirect True ''000000'' ''127.0.0.1'' 1704070870000000 1704070870000001,
         Redirect True ''ffcead'' ''127.0.0.1'' 1704070880000000 1704070880000001]) ! 0) = 2 \<and>
   length (urls example_db) \<le> 1 \<and>
   1 < length (urls (snd (app example_db
         (Shorten \<lparr>request_original_url = ''https://example.com/1548'', expiry_hours = 24\<rparr>
            1704070800000000 1704070800000001)))) \<and>
   access_count (urls (snd (app example_db
         (Shorten \<lparr>request_original_url = ''https://example.com/1548'', expiry_hours = 24\<rparr>
            1704070800000000 1704070800000001))) ! 1) = 0 \<and>
   \<not> resolved example_db
         (Redirect True ''ffcead'' ''127.0.0.1'' 1704153600000001 1704153600000002) \<and>
   take (length (urls example_db))
     (urls (snd (app example_db
        (Redirect True ''ffcead'' ''127.0.0.1'' 1704153600000001 1704153600000002))))
     = urls example_db"
proof -
  let ?qs0 = "[Shorten \<lparr>request_original_url = ''https://example.com/347'', expiry_hours = 24\<rparr>
                 1704067200000000 1704067200000001,
               Redirect True ''ffcead'' ''127.0.0.1'' 1704070860000000 1704070860000001]"
  let ?qs1 = "[Redirect True ''ffcead'' ''127.0.0.1'' 1704070860000000 1704070860000001,
               Analytics ''ffcead'',
               Redirect True ''000000'' ''127.0.0.1'' 1704070870000000 1704070870000001,
               Redirect True ''ffcead'' ''127.0.0.1'' 1704070880000000 1704070880000001]"
  let ?new = "Shorten \<lparr>request_original_url = ''https://example.com/1548'', expiry_hours = 24\<rparr>
                1704070800000000 1704070800000001"
  let ?late = "Redirect True ''ffcead'' ''127.0.0.1'' 1704153600000001 1704153600000002"
  note inst0 = access_count_invariant [of ?qs0 example_db ?new]
  note inst1 = access_count_invariant [of ?qs1 example_db ?late]
  have mem: "example_row\<lparr>access_count := 1\<rparr> \<in> set (urls (run (init_db None) ?qs0))"
    by (simp add: eval_defs generate_short_url_347)
  with inst0 have nonneg: "0 \<le> access_count (example_row\<lparr>access_count := 1\<rparr>)"
    by blast
  have len: "0 < length (urls example_db)"
    by (simp add: example_db_def)
  with inst1 have "access_count (urls example_db ! 0) \<le> access_count (urls (run example_db ?qs1) ! 0)"
    by blast
  have before: "access_count (urls example_db ! 0) = 0"
    by (simp add: example_db_def example_row_def)
  have after: "access_count (urls (run example_db ?qs1) ! 0) = 2"
    by (simp add: eval_defs)
  have app_new: "snd (app example_db ?new) = example_db2"
    by (simp add: eval_defs example_db2_def example_row2_def generate_short_url_1548)
  have l1: "length (urls example_db) \<le> 1"
    by (simp add: example_db_def)
  have l2: "1 < length (urls (snd (app example_db ?new)))"
    unfolding app_new by (simp add: example_db2_def)
  from inst0 l1 l2 have zero: "access_count (urls (snd (app example_db ?new)) ! 1) = 0"
    by blast
  have fail: "\<not> resolved example_db ?late"
    by (simp add: eval_defs)
  with inst1 have same: "take (length (urls example_db)) (urls (snd (app example_db ?late)))
                           = urls example_db"
    by blast
  from mem nonneg len before after l1 l2 zero fail same show ?thesis
    by simp
qed

section \<open>The access log\<close>

lemma app_logs:
  "logs (snd (app d q)) = logs d \<or> (\<exists>l. logs (snd (app d q)) = logs d @ [l])"
  using app_db [of d q] by (auto simp: update_access_count_def)

lemma app_logs_length:
  "length (logs (snd (app d q))) = length (logs d) + (if resolved d q then 1 else 0)"
  using app_db [of d q] by (auto simp: update_access_count_def)

lemma run_logs:
  "take (length (logs d)) (logs (run d qs)) = logs d \<and>
   length (logs (run d qs)) = length (logs d) + resolutions d qs"
proof (induction qs arbitrary: d)
  case Nil
  show ?case by simp
next
  case (Cons q qs)
  let ?d1 = "snd (app d q)"
  from app_logs [of d q] have p: "take (length (logs d)) (logs ?d1) = logs d"
    by auto
  have le: "length (logs d) \<le> length (logs ?d1)"
    by (simp add: app_logs_length)
  have "take (length (logs d)) (logs (run ?d1 qs))
          = take (length (logs d)) (take (length (logs ?d1)) (logs (run ?d1 qs)))"
    using le by (simp add: min_absorb1)
  also have "\<dots> = logs d"
    using Cons.IH [of ?d1] p by simp
  finally show ?case
    using Cons.IH [of ?d1] by (simp add: app_logs_length)
qed

lemma short_urls_update_access_count:
  "map short_url (urls (update_access_count d su)) = map short_url (urls d)"
  by (simp add: update_access_count_def comp_def if_distrib cong: if_cong)

lemma logs_update_access_count:
  "logs (update_access_count d su) = logs d"
  by (simp add: update_access_count_def)

lemma app_logs_reference:
  assumes "\<forall>l \<in> set (logs d). log_short_url l \<in> set (map short_url (urls d))"
  shows "\<forall>l \<in> set (logs (snd (app d q))).
           log_short_url l \<in> set (map short_url (urls (snd (app d q))))"
proof -
  from app_db [of d q] consider
      "snd (app d q) = d"
    | row where "snd (app d q) = d\<lparr>urls := urls d @ [row]\<rparr>"
    | su row l where "select_url d su = Some row" "log_short_url l = su"
        "snd (app d q) = update_access_count (d\<lparr>logs := logs d @ [l]\<rparr>) su"
    by (elim disjE conjE exE) (simp_all, force)
  then show ?thesis
  proof cases
    case 1
    with assms show ?thesis by simp
  next
    case 2
    with assms show ?thesis by auto
  next
    case 3
    from 3(1) have "su \<in> set (map short_url (urls d))"
      by (auto dest: select_url_Some_short_url)
    with assms 3(2) show ?thesis
      unfolding 3(3) short_urls_update_access_count logs_update_access_count
      by auto
  qed
qed

lemma run_logs_reference:
  "\<forall>l \<in> set (logs d). log_short_url l \<in> set (map short_url (urls d)) \<Longrightarrow>
   \<forall>l \<in> set (logs (run d qs)). log_short_url l \<in> set (map short_url (urls (run d qs)))"
proof (induction qs arbitrary: d)
  case Nil
  then show ?case by simp
next
  case (Cons q qs)
  from Cons.IH [OF app_logs_reference [OF Cons.prems, of q]] show ?case
    by simp
qed

text \<open>
  C6. A redirect that answers with the original URL appends exactly one row to
  \<^verbatim>\<open>logs\<close>: the row of the requested short URL, for which a row of \<^verbatim>\<open>urls\<close> exists that
  is not expired at the clock reading of the expiry check. Every other request (a
  shorten, an analytics request, a redirect answering 404 or 410 or failing) leaves
  \<^verbatim>\<open>logs\<close> as it is. Over any sequence of requests the earlier log rows stay in place
  unchanged and the number of new rows is the number of such redirects. In every database
  reached from the empty tables, the short URL of every log row is the short URL of a
  row of \<^verbatim>\<open>urls\<close>.
\<close>

theorem access_log_invariant:
  "(resolved d q \<longrightarrow>
      (\<exists>la su host now1 now2 row.
          q = Redirect la su host now1 now2 \<and> select_url d su = Some row \<and>
          is_expired (expiration_time row) now1 = Inr False \<and>
          logs (snd (app d q)) =
            logs d @ [\<lparr>log_id = next_rowid (map log_id (logs d)), log_short_url = su,
                       access_time = strftime now2, ip_address = host\<rparr>])) \<and>
   (\<not> resolved d q \<longrightarrow> logs (snd (app d q)) = logs d) \<and>
   take (length (logs d)) (logs (run d qs)) = logs d \<and>
   length (logs (run d qs)) = length (logs d) + resolutions d qs \<and>
   (\<forall>l \<in> set (logs (run (init_db None) qs)).
      log_short_url l \<in> short_url ` set (urls (run (init_db None) qs)))"
proof (intro conjI)
  show "\<forall>l \<in> set (logs (run (init_db None) qs)).
             log_short_url l \<in> short_url ` set (urls (run (init_db None) qs))"
    using run_logs_reference [of "init_db None" qs] by (simp add: init_db_def)
  show "resolved d q \<longrightarrow>
      (\<exists>la su host now1 now2 row.
          q = Redirect la su host now1 now2 \<and> select_url d su = Some row \<and>
          is_expired (expiration_time row) now1 = Inr False \<and>
          logs (snd (app d q)) =
            logs d @ [\<lparr>log_id = next_rowid (map log_id (logs d)), log_short_url = su,
                       access_time = strftime now2, ip_address = host\<rparr>])"
  proof
    assume "resolved d q"
    with app_db [of d q] obtain la su host now1 now2 row where
      "q = Redirect la su host now1 now2" "select_url d su = Some row"
      "is_expired (expiration_time row) now1 = Inr False"
      "snd (app d q) =
         update_access_count
           (d\<lparr>logs := logs d @
               [\<lparr>log_id = next_rowid (map log_id (logs d)), log_short_url = su,
                 access_time = strftime now2, ip_address = host\<rparr>]\<rparr>) su"
      by blast
    then show "\<exists>la su host now1 now2 row.
          q = Redirect la su host now1 now2 \<and> select_url d su = Some row \<and>
          is_expired (expiration_time row) now1 = Inr False \<and>
          logs (snd (app d q)) =
            logs d @ [\<lparr>log_id = next_rowid (map log_id (logs d)), log_short_url = su,
                       access_time = strftime now2, ip_address = host\<rparr>]"
      by (simp add: logs_update_access_count)
  qed
  show "\<not> resolved d q \<longrightarrow> logs (snd (app d q)) = logs d"
    using app_db [of d q] by auto
  show "take (length (logs d)) (logs (run d qs)) = logs d"
    by (rule conjunct1 [OF run_logs])
  show "length (logs (run d qs)) = length (logs d) + resolutions d qs"
    by (rule conjunct2 [OF run_logs])
qed

theorem access_log_invariant_witness:
  "resolved example_db (Redirect True ''ffcead'' ''127.0.0.1'' 1704070860000000 1704070860000001) \<and>
   logs (snd (app example_db
           (Redirect True ''ffcead'' ''127.0.0.1'' 1704070860000000 1704070860000001)))
     = [\<lparr>log_id = 1, log_short_url = ''ffcead'', access_time = 1704070860,
         ip_address = ''127.0.0.1''\<rparr>] \<and>
   \<not> resolved example_logged
         (Redirect True ''ffcead'' ''127.0.0.1'' 1704153600000001 1704153600000002) \<and>
   logs (snd (app example_logged
           (Redirect True ''ffcead'' ''127.0.0.1'' 1704153600000001 1704153600000002)))
     = logs example_logged \<and>
   resolutions example_logged
     [Redirect True ''ffcead'' ''127.0.0.1'' 1704070860000000 1704070860000001,
      Analytics ''ffcead'',
      Redirect True ''000000'' ''127.0.0.1'' 1704070870000000 1704070870000001,
      Redirect True ''ffcead'' ''127.0.0.1'' 1704070880000000 1704070880000001] = 2 \<and>
   length (logs (run example_logged
     [Redirect True ''ffcead'' ''127.0.0.1'' 1704070860000000 1704070860000001,
      Analytics ''ffcead'',
      Redirect True ''000000'' ''127.0.0.1'' 1704070870000000 1704070870000001,
      Redirect True ''ffcead'' ''127.0.0.1'' 1704070880000000 1704070880000001])) = 5 \<and>
   \<lparr>log_id = 1, log_short_url = ''ffcead'', access_time = 1704070860, ip_address = ''127.0.0.1''\<rparr>
     \<in> set (logs (run (init_db None)
          [Shorten \<lparr>request_original_url = ''https://example.com/347'', expiry_hours = 24\<rparr>
             1704067200000000 1704067200000001,
           Redirect True ''ffcead'' ''127.0.0.1'' 1704070860000000 1704070860000001])) \<and>
   ''ffcead''
     \<in> short_url ` set (urls (run (init_db None)
          [Shorten \<lparr>request_original_url = ''https://example.com/347'', expiry_hours = 24\<rparr>
             1704067200000000 1704067200000001,
           Redirect True ''ffcead'' ''127.0.0.1'' 1704070860000000 1704070860000001]))"
proof -
  let ?qs0 = "[Shorten \<lparr>request_original_url = ''https://example.com/347'', expiry_hours = 24\<rparr>
                 1704067200000000 1704067200000001,
               Redirect True ''ffcead'' ''127.0.0.1'' 1704070860000000 1704070860000001]"
  let ?qs1 = "[Redirect True ''ffcead'' ''127.0.0.1'' 1704070860000000 1704070860000001,
               Analytics ''ffcead'',
               Redirect True ''000000'' ''127.0.0.1'' 1704070870000000 1704070870000001,
               Redirect True ''ffcead'' ''127.0.0.1'' 1704070880000000 1704070880000001]"
  let ?ok = "Redirect True ''ffcead'' ''127.0.0.1'' 1704070860000000 1704070860000001"
  let ?late = "Redirect True ''ffcead'' ''127.0.0.1'' 1704153600000001 1704153600000002"
  let ?l = "\<lparr>log_id = 1, log_short_url = ''ffcead'', access_time = 1704070860,
             ip_address = ''127.0.0.1''\<rparr>"
  note inst0 = access_log_invariant [of example_db ?ok ?qs0]
  note inst1 = access_log_invariant [of example_logged ?late ?qs1]
  have ok: "resolved example_db ?ok"
    by (simp add: eval_defs)
  with inst0 have "logs (snd (app example_db ?ok)) =
      logs example_db @ [\<lparr>log_id = next_rowid (map log_id (logs example_db)),
                          log_short_url = ''ffcead'', access_time = strftime 1704070860000001,
                          ip_address = ''127.0.0.1''\<rparr>]"
    by auto
  then have appended: "logs (snd (app example_db ?ok)) = [?l]"
    by (simp add: example_db_def next_rowid_def strftime_def)
  have late: "\<not> resolved example_logged ?late"
    by (simp add: eval_defs example_logged_def)
  with inst1 have kept: "logs (snd (app example_logged ?late)) = logs example_logged"
    by blast
  have count: "resolutions example_logged ?qs1 = 2"
    by (simp add: eval_defs example_logged_def)
  have base: "length (logs example_logged) = 3"
    by (simp add: example_logged_def)
  from inst1 have "length (logs (run example_logged ?qs1))
                     = length (logs example_logged) + resolutions example_logged ?qs1"
    by blast
  then have len: "length (logs (run example_logged ?qs1)) = 5"
    unfolding count base by simp
  have mem: "?l \<in> set (logs (run (init_db None) ?qs0))"
    by (simp add: eval_defs generate_short_url_347)
  with inst0 have "log_short_url ?l \<in> short_url ` set (urls (run (init_db None) ?qs0))"
    by blast
  then have ref: "''ffcead'' \<in> short_url ` set (urls (run (init_db None) ?qs0))"
    by simp
  from ok appended late kept count len mem ref show ?thesis
    by simp
qed

section \<open>Shortening\<close>

lemma find_snoc:
  "find P (xs @ [y]) = (case find P xs of None \<Rightarrow> if P y then Some y else None | Some x \<Rightarrow> Some x)"
  by (induction xs) auto

lemma select_url_snoc:
  "select_url (d\<lparr>urls := urls d @ [r]\<rparr>) su =
     (case select_url d su of None \<Rightarrow> if short_url r = su then Some r else None
      | Some x \<Rightarrow> Some x)"
  by (simp add: select_url_def find_snoc)

lemma shorten_url_overflow:
  "add_hours now1 (expiry_hours rq) = Inl e \<Longrightarrow>
   shorten_url d rq now1 now2 = (Inl OverflowError, d)"
  by (auto simp: shorten_url_def add_hours_def Let_def split: if_splits)

lemma shorten_url_free:
  assumes "select_url d (generate_short_url (request_original_url rq)) = None"
    and "add_hours now1 (expiry_hours rq) = Inr et"
  shows "shorten_url d rq now1 now2 =
           (Inr (''https://short.ly/'' @ generate_short_url (request_original_url rq)),
            d\<lparr>urls := urls d @
                [\<lparr>url_id = next_rowid (map url_id (urls d)),
                  original_url = request_original_url rq,
                  short_url = generate_short_url (request_original_url rq),
                  creation_time = strftime now2, expiration_time = strftime et,
                  access_count = 0\<rparr>]\<rparr>)"
  using assms by (simp add: shorten_url_def insert_url_def Let_def select_url_None_iff)

lemma shorten_url_stored:
  assumes "select_url d (generate_short_url (request_original_url rq)) = Some row"
    and "add_hours now1 (expiry_hours rq) = Inr et"
  shows "shorten_url d rq now1 now2 =
           (Inr (''https://short.ly/'' @ generate_short_url (request_original_url rq)), d)"
proof -
  from assms(1) have "generate_short_url (request_original_url rq) \<in> short_url ` set (urls d)"
    using select_url_None_iff [of d "generate_short_url (request_original_url rq)"] by simp
  with assms(2) show ?thesis
    by (simp add: shorten_url_def insert_url_def Let_def)
qed

lemma shorten_url_Inr:
  assumes "shorten_url d rq now1 now2 = (Inr s, d')"
  shows "s = ''https://short.ly/'' @ generate_short_url (request_original_url rq) \<and>
         (\<exists>et. add_hours now1 (expiry_hours rq) = Inr et) \<and>
         select_url d' (generate_short_url (request_original_url rq)) \<noteq> None \<and>
         (distinct (map short_url (urls d)) \<longrightarrow> distinct (map short_url (urls d')))"
proof (cases "add_hours now1 (expiry_hours rq)")
  case (Inl e)
  from shorten_url_overflow [OF Inl, of d now2] assms show ?thesis
    by simp
next
  case (Inr et)
  show ?thesis
  proof (cases "select_url d (generate_short_url (request_original_url rq))")
    case None
    from shorten_url_free [OF None Inr, of now2] assms
    have s: "s = ''https://short.ly/'' @ generate_short_url (request_original_url rq)"
      and d': "d' = d\<lparr>urls := urls d @
                [\<lparr>url_id = next_rowid (map url_id (urls d)),
                  original_url = request_original_url rq,
                  short_url = generate_short_url (request_original_url rq),
                  creation_time = strftime now2, expiration_time = strftime et,
                  access_count = 0\<rparr>]\<rparr>"
      by simp_all
    have stored: "select_url d' (generate_short_url (request_original_url rq)) \<noteq> None"
      by (simp add: d' select_url_snoc None)
    from None have "generate_short_url (request_original_url rq) \<notin> short_url ` set (urls d)"
      by (simp add: select_url_None_iff)
    then have "distinct (map short_url (urls d)) \<longrightarrow> distinct (map short_url (urls d'))"
      by (simp add: d')
    with s stored show ?thesis
      by (simp add: Inr)
  next
    case (Some row)
    from shorten_url_stored [OF Some Inr, of now2] assms Some show ?thesis
      by (auto simp: Inr)
  qed
qed

text \<open>
  C4. When \<^verbatim>\<open>shorten_url\<close> is called twice with the same original URL (whatever the
  expiry hours and the clock readings, and whatever requests of other URLs came before),
  both calls return the same short URL and the second call leaves the database exactly
  as the first call left it: no second row is inserted, the short URLs of the table stay
  pairwise different, and the row stored for the short URL is the one that was there
  after the first call.
\<close>

theorem shorten_url_idempotent:
  assumes "shorten_url d rq now1 now2 = (Inr s1, d1)"
    and "request_original_url rq' = request_original_url rq"
    and "shorten_url d1 rq' now3 now4 = (Inr s2, d2)"
  shows "s2 = s1 \<and> d2 = d1 \<and>
         s1 = ''https://short.ly/'' @ generate_short_url (request_original_url rq) \<and>
         select_url d1 (generate_short_url (request_original_url rq)) \<noteq> None \<and>
         select_url d2 (generate_short_url (request_original_url rq))
           = select_url d1 (generate_short_url (request_original_url rq)) \<and>
         (distinct (map short_url (urls d)) \<longrightarrow> distinct (map short_url (urls d2)))"
proof -
  note first = shorten_url_Inr [OF assms(1)]
  note second = shorten_url_Inr [OF assms(3)]
  from first obtain row where
    row: "select_url d1 (generate_short_url (request_original_url rq')) = Some row"
    by (auto simp: assms(2))
  from second obtain et where et: "add_hours now3 (expiry_hours rq') = Inr et"
    by blast
  from shorten_url_stored [OF row et, of now4] assms(3) have "d2 = d1"
    by simp
  with first second show ?thesis
    by (simp add: assms(2))
qed

theorem shorten_url_idempotent_witness:
  "shorten_url (init_db None)
     \<lparr>request_original_url = ''https://example.com/347'', expiry_hours = 24\<rparr>
     1704067200000000 1704067200000001 = (Inr ''https://short.ly/ffcead'', example_db) \<and>
   shorten_url example_db
     \<lparr>request_original_url = ''https://example.com/347'', expiry_hours = 1\<rparr>
     1704070800000000 1704070800000001 = (Inr ''https://short.ly/ffcead'', example_db) \<and>
   select_url example_db ''ffcead'' = Some example_row \<and>
   distinct (map short_url (urls example_db))"
proof -
  have one: "shorten_url (init_db None)
     \<lparr>request_original_url = ''https://example.com/347'', expiry_hours = 24\<rparr>
     1704067200000000 1704067200000001 = (Inr ''https://short.ly/ffcead'', example_db)"
    by (simp add: eval_defs generate_short_url_347)
  have two: "shorten_url example_db
     \<lparr>request_original_url = ''https://example.com/347'', expiry_hours = 1\<rparr>
     1704070800000000 1704070800000001 = (Inr ''https://short.ly/ffcead'', example_db)"
    by (simp add: eval_defs generate_short_url_347)
  have same: "request_original_url
       \<lparr>request_original_url = ''https://example.com/347'', expiry_hours = 1\<rparr>
     = request_original_url
       \<lparr>request_original_url = ''https://example.com/347'', expiry_hours = 24\<rparr>"
    by simp
  from shorten_url_idempotent [OF one same two] one two show ?thesis
    by (simp add: generate_short_url_347 example_db_def example_row_def select_url_def)
qed




section \<open>Shortening, then resolving\<close>

text \<open>
  C3 (the code at the failing input). After \<^verbatim>\<open>https://example.com/347\<close> was
  shortened, shortening \<^verbatim>\<open>https://example.com/1155\<close> with 24 hours to live returns the
  short URL \<^verbatim>\<open>https://short.ly/ffcead\<close>; one minute later, long before the creation
  time plus 24 hours, \<^verbatim>\<open>redirect_url\<close> of \<^verbatim>\<open>ffcead\<close> returns
  \<^verbatim>\<open>https://example.com/347\<close>, not the URL that was shortened.
\<close>

theorem shorten_redirect_collision:
  "snd (shorten_url (init_db None)
     \<lparr>request_original_url = ''https://example.com/347'', expiry_hours = 24\<rparr>
     1704067200000000 1704067200000001) = example_db \<and>
   fst (shorten_url example_db
     \<lparr>request_original_url = ''https://example.com/1155'', expiry_hours = 24\<rparr>
     1704070800000000 1704070800000001) = Inr (''https://short.ly/'' @ ''ffcead'') \<and>
   strptime (strftime 1704070800000001) = Inr 1704070800000000 \<and>
   (1704070860000000 :: int) < 1704070800000000 + 24 * 3600000000 \<and>
   fst (redirect_url True
          (snd (shorten_url example_db
             \<lparr>request_original_url = ''https://example.com/1155'', expiry_hours = 24\<rparr>
             1704070800000000 1704070800000001))
          ''ffcead'' ''127.0.0.1'' 1704070860000000 1704070860000001)
     = Inr ''https://example.com/347''"
  by (simp add: eval_defs generate_short_url_347 generate_short_url_1155)

section \<open>No lost update\<close>

lemma resolved_of_resolved: "resolved_of su d q \<Longrightarrow> resolved d q"
  by (cases q) auto

lemma app_select_url:
  assumes "select_url d su = Some row"
  shows "select_url (snd (app d q)) su =
           Some (row\<lparr>access_count := access_count row + (if resolved_of su d q then 1 else 0)\<rparr>)"
proof -
  from assms have su: "short_url row = su"
    by (auto dest: select_url_Some_short_url)
  from app_db [of d q] consider
      (same) "\<not> resolved d q" "snd (app d q) = d"
    | (new) row' where "\<not> resolved d q" "snd (app d q) = d\<lparr>urls := urls d @ [row']\<rparr>"
    | (hit) la su' host now1 now2 l where "resolved d q" "q = Redirect la su' host now1 now2"
        "snd (app d q) = update_access_count (d\<lparr>logs := logs d @ [l]\<rparr>) su'"
    by (elim disjE conjE exE) blast+
  then show ?thesis
  proof cases
    case same
    with assms resolved_of_resolved [of su d q] show ?thesis by auto
  next
    case new
    with assms resolved_of_resolved [of su d q] show ?thesis
      by (auto simp: select_url_snoc)
  next
    case hit
    from hit(1,2) have "resolved_of su d q \<longleftrightarrow> su' = su"
      by simp
    with assms su show ?thesis
      unfolding hit(3) select_url_update_access_count by simp
  qed
qed

lemma run_select_url:
  "select_url d su = Some row \<Longrightarrow>
   select_url (run d qs) su
     = Some (row\<lparr>access_count := access_count row + int (resolutions_of su d qs)\<rparr>)"
proof (induction qs arbitrary: d row)
  case Nil
  then show ?case by simp
next
  case (Cons q qs)
  from Cons.IH [OF app_select_url [OF Cons.prems, of q]] show ?case
    by simp
qed

lemma execute_select_url:
  assumes "select_url d su = Some row"
  shows "select_url (execute d st) su =
           Some (row\<lparr>access_count :=
                      access_count row + (if st = Update_access_count su then 1 else 0)\<rparr>)"
proof -
  from assms have su: "short_url row = su"
    by (auto dest: select_url_Some_short_url)
  show ?thesis
  proof (cases st)
    case (Select_url x)
    with assms show ?thesis by simp
  next
    case (Insert_log x at ip)
    with assms show ?thesis by (simp add: insert_log_def)
  next
    case (Update_access_count x)
    with assms su show ?thesis
      by (auto simp: select_url_update_access_count)
  qed
qed

lemma foldl_execute_select_url:
  "select_url d su = Some row \<Longrightarrow>
   select_url (foldl execute d ss) su =
     Some (row\<lparr>access_count :=
                access_count row + int (length (filter (\<lambda>st. st = Update_access_count su) ss))\<rparr>)"
proof (induction ss arbitrary: d row)
  case Nil
  then show ?case by simp
next
  case (Cons st ss)
  from Cons.IH [OF execute_select_url [OF Cons.prems, of st]] show ?case
    by simp
qed

lemma filter_interleavings:
  "ss \<in> interleavings xss \<Longrightarrow> length (filter P ss) = length (filter P (concat xss))"
proof (induction xss arbitrary: ss)
  case Nil
  then show ?case by simp
next
  case (Cons xs xss)
  then obtain ys where ys: "ys \<in> interleavings xss" and ss: "ss \<in> shuffles xs ys"
    by auto
  from ss have "filter P ss \<in> filter P ` shuffles xs ys"
    by (rule imageI)
  then have "filter P ss \<in> shuffles (filter P xs) (filter P ys)"
    by (simp only: filter_shuffles)
  then have "length (filter P ss) = length (filter P xs) + length (filter P ys)"
    by (rule length_shuffles)
  with Cons.IH [OF ys] show ?case
    by simp
qed

lemma updates_of_resolutions:
  "length (filter (\<lambda>st. st = Update_access_count su) (concat (map resolution rs)))
     = length (filter (\<lambda>r. fst r = su) rs)"
  by (induction rs) auto

lemma resolution_redirect_url:
  assumes "select_url d su = Some row" and "is_expired (expiration_time row) now1 = Inr False"
  shows "foldl execute d (resolution (su, host, now2)) = snd (redirect_url True d su host now1 now2)"
  using redirect_url_success [OF assms, of host now2]
  by (simp add: insert_log_def)

text \<open>
  C9. Over any sequence of requests, run from a database in which the short URL has a
  row, that row's access_count after the sequence is its access_count before plus the
  number of redirects of the short URL that answered with the original URL. The
  statements of one such redirect, executed in their order, give the database that
  \<^verbatim>\<open>redirect_url\<close> gives. And when any number of such redirects, of any short URLs, are
  under way together, then after any interleaving of their statements the row's
  access_count is its access_count before plus the number of the redirects of its short
  URL: the increment is one \<^verbatim>\<open>UPDATE\<close> relative to the stored value, and the count read
  by the \<^verbatim>\<open>SELECT\<close> is never written back, so no increment is lost.
\<close>

theorem no_lost_update:
  "(select_url d su = Some row \<longrightarrow>
      select_url (run d qs) su
        = Some (row\<lparr>access_count := access_count row + int (resolutions_of su d qs)\<rparr>)) \<and>
   (select_url d su = Some row \<and> is_expired (expiration_time row) now1 = Inr False \<longrightarrow>
      foldl execute d (resolution (su, host, now2))
        = snd (redirect_url True d su host now1 now2)) \<and>
   (select_url d su = Some row \<and> ss \<in> interleavings (map resolution rs) \<longrightarrow>
      select_url (foldl execute d ss) su
        = Some (row\<lparr>access_count :=
                     access_count row + int (length (filter (\<lambda>r. fst r = su) rs))\<rparr>))"
proof (intro conjI impI; (elim conjE)?)
  assume "select_url d su = Some row"
  then show "select_url (run d qs) su
        = Some (row\<lparr>access_count := access_count row + int (resolutions_of su d qs)\<rparr>)"
    by (rule run_select_url)
next
  assume "select_url d su = Some row" and "is_expired (expiration_time row) now1 = Inr False"
  then show "foldl execute d (resolution (su, host, now2))
        = snd (redirect_url True d su host now1 now2)"
    by (rule resolution_redirect_url)
next
  assume sel: "select_url d su = Some row" and ss: "ss \<in> interleavings (map resolution rs)"
  have "length (filter (\<lambda>st. st = Update_access_count su) ss)
          = length (filter (\<lambda>r. fst r = su) rs)"
    using filter_interleavings [OF ss] by (simp only: updates_of_resolutions)
  with foldl_execute_select_url [OF sel, of ss]
  show "select_url (foldl execute d ss) su
        = Some (row\<lparr>access_count :=
                     access_count row + int (length (filter (\<lambda>r. fst r = su) rs))\<rparr>)"
    by simp
qed

theorem no_lost_update_witness:
  "select_url example_db ''ffcead'' = Some example_row \<and>
   resolutions_of ''ffcead'' example_db
     [Redirect True ''ffcead'' ''10.0.0.1'' 1704070860000000 1704070860000001,
      Redirect True ''000000'' ''10.0.0.2'' 1704070870000000 1704070870000001,
      Redirect True ''ffcead'' ''10.0.0.3'' 1704070880000000 1704070880000001,
      Redirect True ''ffcead'' ''10.0.0.4'' 1704153600000001 1704153600000002] = 2 \<and>
   select_url
     (run example_db
       [Redirect True ''ffcead'' ''10.0.0.1'' 1704070860000000 1704070860000001,
        Redirect True ''000000'' ''10.0.0.2'' 1704070870000000 1704070870000001,
        Redirect True ''ffcead'' ''10.0.0.3'' 1704070880000000 1704070880000001,
        Redirect True ''ffcead'' ''10.0.0.4'' 1704153600000001 1704153600000002])
     ''ffcead'' = Some (example_row\<lparr>access_count := 2\<rparr>) \<and>
   is_expired (expiration_time example_row) 1704070860000000 = Inr False \<and>
   foldl execute example_db (resolution (''ffcead'', ''10.0.0.1'', 1704070860000001))
     = snd (redirect_url True example_db ''ffcead'' ''10.0.0.1'' 1704070860000000 1704070860000001) \<and>
   [Select_url ''ffcead'', Select_url ''ffcead'',
    Insert_log ''ffcead'' 1704070860 ''10.0.0.3'',
    Insert_log ''ffcead'' 1704070860 ''10.0.0.1'',
    Update_access_count ''ffcead'', Update_access_count ''ffcead'']
     \<in> interleavings
         (map resolution
            [(''ffcead'', ''10.0.0.1'', 1704070860000001),
             (''ffcead'', ''10.0.0.3'', 1704070860000002)]) \<and>
   select_url
     (foldl execute example_db
        [Select_url ''ffcead'', Select_url ''ffcead'',
         Insert_log ''ffcead'' 1704070860 ''10.0.0.3'',
         Insert_log ''ffcead'' 1704070860 ''10.0.0.1'',
         Update_access_count ''ffcead'', Update_access_count ''ffcead''])
     ''ffcead'' = Some (example_row\<lparr>access_count := 2\<rparr>)"
proof -
  let ?qs = "[Redirect True ''ffcead'' ''10.0.0.1'' 1704070860000000 1704070860000001,
      Redirect True ''000000'' ''10.0.0.2'' 1704070870000000 1704070870000001,
      Redirect True ''ffcead'' ''10.0.0.3'' 1704070880000000 1704070880000001,
      Redirect True ''ffcead'' ''10.0.0.4'' 1704153600000001 1704153600000002]"
  let ?ss = "[Select_url ''ffcead'', Select_url ''ffcead'',
    Insert_log ''ffcead'' 1704070860 ''10.0.0.3'',
    Insert_log ''ffcead'' 1704070860 ''10.0.0.1'',
    Update_access_count ''ffcead'', Update_access_count ''ffcead'']"
  let ?rs = "[(''ffcead'', ''10.0.0.1'', 1704070860000001 :: int),
              (''ffcead'', ''10.0.0.3'', 1704070860000002)]"
  note inst = no_lost_update
      [of example_db "''ffcead''" example_row ?qs 1704070860000000 "''10.0.0.1''"
          1704070860000001 ?ss ?rs]
  have sel: "select_url example_db ''ffcead'' = Some example_row"
    by (simp add: example_db_def example_row_def select_url_def)
  have n: "resolutions_of ''ffcead'' example_db ?qs = 2"
    by (simp add: eval_defs)
  from inst sel have "select_url (run example_db ?qs) ''ffcead''
      = Some (example_row\<lparr>access_count :=
                access_count example_row + int (resolutions_of ''ffcead'' example_db ?qs)\<rparr>)"
    by blast
  then have a: "select_url (run example_db ?qs) ''ffcead'' = Some (example_row\<lparr>access_count := 2\<rparr>)"
    unfolding n by (simp add: example_row_def)
  have e: "is_expired (expiration_time example_row) 1704070860000000 = Inr False"
    by (simp add: example_row_def is_expired_def strptime_def year_1000_def)
  from inst sel e
  have b: "foldl execute example_db (resolution (''ffcead'', ''10.0.0.1'', 1704070860000001))
     = snd (redirect_url True example_db ''ffcead'' ''10.0.0.1'' 1704070860000000 1704070860000001)"
    by blast
  have mem: "?ss \<in> interleavings (map resolution ?rs)"
    by (simp add: strftime_def Cons_in_shuffles_iff)
  from inst sel mem have "select_url (foldl execute example_db ?ss) ''ffcead''
      = Some (example_row\<lparr>access_count :=
                access_count example_row + int (length (filter (\<lambda>r. fst r = ''ffcead'') ?rs))\<rparr>)"
    by blast
  then have c: "select_url (foldl execute example_db ?ss) ''ffcead''
                  = Some (example_row\<lparr>access_count := 2\<rparr>)"
    by (simp add: example_row_def)
  from sel n a e b mem c show ?thesis
    by simp
qed

end
